theory Spec2Isabelle
  imports Complex_Main
begin

section \<open>Exceptions and candles (models.py)\<close>

text \<open>
  Python exceptions are values. Only the classes that the source raises, catches or lets
  escape are listed; \<open>ClientError\<close> stands for a failure of the HTTP client.
\<close>

datatype py_exn =
  ValueError | KeyError | IndexError | TypeError | RuntimeError | OverflowError | ClientError

text \<open>
  A Python float is a finite number, an infinity or NaN. Finite floats are represented by
  the real number they denote. The comparisons are those of IEEE 754: every comparison
  with NaN is false, so \<open>a >= b\<close> is not the negation of \<open>a < b\<close>.
\<close>

datatype pyfloat = Fin real | PosInf | NegInf | NaN

text \<open>\<open>a < b\<close> on floats.\<close>

fun float_lt :: "pyfloat \<Rightarrow> pyfloat \<Rightarrow> bool" where
  "float_lt (Fin a) (Fin b) = (a < b)"
| "float_lt (Fin a) PosInf = True"
| "float_lt NegInf (Fin b) = True"
| "float_lt NegInf PosInf = True"
| "float_lt _ _ = False"

text \<open>\<open>a >= b\<close> on floats.\<close>

fun float_ge :: "pyfloat \<Rightarrow> pyfloat \<Rightarrow> bool" where
  "float_ge (Fin a) (Fin b) = (b \<le> a)"
| "float_ge (Fin a) NegInf = True"
| "float_ge PosInf (Fin b) = True"
| "float_ge PosInf PosInf = True"
| "float_ge PosInf NegInf = True"
| "float_ge NegInf NegInf = True"
| "float_ge _ _ = False"

text \<open>
  The dataclass \<open>Candle\<close>. The field \<open>open\<close> is called \<open>open_p\<close> here, since
  \<open>open\<close> is the library's predicate for open sets.
\<close>

record candle =
  time :: int
  open_p :: pyfloat
  high :: pyfloat
  low :: pyfloat
  close :: pyfloat
  volume :: pyfloat

text \<open>\<open>Candle.__post_init__\<close>: the two checks, in the order of the source.\<close>

definition post_init :: "candle \<Rightarrow> py_exn + unit" where
  "post_init self =
     (if float_lt (high self) (low self) then Inl ValueError
      else if time self \<le> 0 then Inl ValueError
      else Inr ())"

text \<open>Constructing a candle: the generated \<open>__init__\<close> stores the fields, then runs
  \<open>__post_init__\<close>; when that raises, no object is returned.\<close>

definition Candle ::
  "int \<Rightarrow> pyfloat \<Rightarrow> pyfloat \<Rightarrow> pyfloat \<Rightarrow> pyfloat \<Rightarrow> pyfloat \<Rightarrow> py_exn + candle" where
  "Candle t op hi lo cl vol =
     (let self = \<lparr>time = t, open_p = op, high = hi, low = lo, close = cl, volume = vol\<rparr>
      in case post_init self of Inl e \<Rightarrow> Inl e | Inr _ \<Rightarrow> Inr self)"

section \<open>Strings and the regular expressions\<close>

text \<open>
  Symbols are ASCII strings: a \<open>char\<close> is an ASCII code point. On ASCII, \<open>str.upper\<close>
  maps the 26 lower-case letters and leaves every other character alone. Symbols with
  characters outside ASCII, where \<open>str.upper\<close> and \<open>str.strip\<close> follow the Unicode
  tables (U+00DF becomes \<open>SS\<close>, U+0085 and U+00A0 are white space), are outside the model.
\<close>

definition upper_char :: "char \<Rightarrow> char" where
  "upper_char c =
     (case map_of (zip ''abcdefghijklmnopqrstuvwxyz'' ''ABCDEFGHIJKLMNOPQRSTUVWXYZ'') c of
        Some u \<Rightarrow> u
      | None \<Rightarrow> c)"

definition upper :: "string \<Rightarrow> string" where
  "upper s = map upper_char s"

definition is_AZ :: "char \<Rightarrow> bool" where
  "is_AZ c = (c \<in> set ''ABCDEFGHIJKLMNOPQRSTUVWXYZ'')"

definition is_AZ09 :: "char \<Rightarrow> bool" where
  "is_AZ09 c = (c \<in> set ''ABCDEFGHIJKLMNOPQRSTUVWXYZ0123456789'')"

text \<open>
  Every pattern of the source has the shape \<open>^P$\<close> and is used with \<open>re.match\<close>.
  Without the MULTILINE flag, \<open>$\<close> matches at the end of the string and also just
  before a newline that ends the string. No pattern body below can consume a newline, so
  \<open>^P$\<close> matches \<open>s\<close> exactly when \<open>P\<close> matches all of \<open>s\<close>, or all of \<open>s\<close> without
  its final newline.
\<close>

definition anchored :: "(string \<Rightarrow> bool) \<Rightarrow> string \<Rightarrow> bool" where
  "anchored P s = (P s \<or> (s \<noteq> [] \<and> last s = CHR 0x0A \<and> P (butlast s)))"

definition QUOTES :: "string list" where
  "QUOTES = [''USDT'', ''USDC'', ''BTC'', ''ETH'', ''BNB'', ''BUSD'', ''FDUSD'']"

text \<open>Body of \<open>[A-Z]{2,}(USDT|USDC|BTC|ETH|BNB|BUSD|FDUSD)\<close>: some quote currency ends
  the string and at least two capital letters stand before it.\<close>

definition crypto_body :: "string \<Rightarrow> bool" where
  "crypto_body s =
     list_ex (\<lambda>q. length q + 2 \<le> length s
                 \<and> drop (length s - length q) s = q
                 \<and> list_all is_AZ (take (length s - length q) s)) QUOTES"

text \<open>Body of \<open>(\^[A-Z]+|[A-Z]{1,5})\<close>.\<close>

definition stock_body :: "string \<Rightarrow> bool" where
  "stock_body s =
     ((case s of [] \<Rightarrow> False | c # r \<Rightarrow> c = CHR ''^'' \<and> r \<noteq> [] \<and> list_all is_AZ r)
      \<or> (1 \<le> length s \<and> length s \<le> 5 \<and> list_all is_AZ s))"

text \<open>Body of \<open>[A-Z]{1,5}\<close>, the stock pattern of tiingo.py.\<close>

definition plain_stock_body :: "string \<Rightarrow> bool" where
  "plain_stock_body s = (1 \<le> length s \<and> length s \<le> 5 \<and> list_all is_AZ s)"

text \<open>Body of \<open>[A-Z0-9]{1,7}\.[A-Z]{1,3}\<close>. Neither character class holds the dot, so the
  only possible split is at the first dot.\<close>

definition intl_stock_body :: "string \<Rightarrow> bool" where
  "intl_stock_body s =
     (let pre = takeWhile (\<lambda>c. c \<noteq> CHR ''.'') s
      in 1 \<le> length pre \<and> length pre \<le> 7 \<and> list_all is_AZ09 pre
         \<and> (case drop (length pre) s of
              [] \<Rightarrow> False
            | d # suf \<Rightarrow> 1 \<le> length suf \<and> length suf \<le> 3 \<and> list_all is_AZ suf))"

text \<open>Body of \<open>[A-Z]{6}\<close>.\<close>

definition forex_body :: "string \<Rightarrow> bool" where
  "forex_body s = (length s = 6 \<and> list_all is_AZ s)"

definition CRYPTO_RE :: "string \<Rightarrow> bool" where
  "CRYPTO_RE = anchored crypto_body"

definition STOCK_RE :: "string \<Rightarrow> bool" where
  "STOCK_RE = anchored stock_body"

definition TIINGO_STOCK_RE :: "string \<Rightarrow> bool" where
  "TIINGO_STOCK_RE = anchored plain_stock_body"

definition INTL_STOCK_RE :: "string \<Rightarrow> bool" where
  "INTL_STOCK_RE = anchored intl_stock_body"

definition FOREX_RE :: "string \<Rightarrow> bool" where
  "FOREX_RE = anchored forex_body"

section \<open>Routing (registry.py)\<close>

text \<open>The four provider singletons. The lazy getters only construct the object on first
  use; which object a chain holds does not depend on when it was built.\<close>

datatype provider = Binance | YFinance | Tiingo | Finnhub

text \<open>\<open>pick\<close>: the tests of the source, in its order, each returning its chain.\<close>

definition pick :: "string \<Rightarrow> provider list" where
  "pick symbol =
     (let up = upper symbol
      in if CRYPTO_RE up then [Binance, YFinance]
         else if STOCK_RE up then [YFinance, Tiingo, Finnhub]
         else if INTL_STOCK_RE up then [YFinance, Finnhub]
         else if FOREX_RE up then [YFinance, Finnhub]
         else [Binance, YFinance, Tiingo, Finnhub])"

text \<open>
  The specification's reading of the same routine: a classifier into asset classes and a
  routing table. These two definitions follow the specification's words and are compared
  with \<open>pick\<close> below.
\<close>

datatype asset_class = Crypto | Stock | InternationalStock | Forex | Unknown

definition spec_classify :: "string \<Rightarrow> asset_class" where
  "spec_classify symbol =
     (let up = upper symbol
      in if CRYPTO_RE up then Crypto
         else if STOCK_RE up then Stock
         else if INTL_STOCK_RE up then InternationalStock
         else if FOREX_RE up then Forex
         else Unknown)"

fun spec_chain :: "asset_class \<Rightarrow> provider list" where
  "spec_chain Crypto = [Binance, YFinance]"
| "spec_chain Stock = [YFinance, Tiingo, Finnhub]"
| "spec_chain InternationalStock = [YFinance, Finnhub]"
| "spec_chain Forex = [YFinance, Finnhub]"
| "spec_chain Unknown = [Binance, YFinance, Tiingo, Finnhub]"

section \<open>The providers' \<open>supports\<close>\<close>

text \<open>\<open>str.strip()\<close> removes white space at both ends; these are the ASCII characters
  for which \<open>str.isspace\<close> holds.\<close>

definition py_isspace :: "char \<Rightarrow> bool" where
  "py_isspace c =
     (c \<in> set [CHR 0x09, CHR 0x0A, CHR 0x0B, CHR 0x0C, CHR 0x0D,
               CHR 0x1C, CHR 0x1D, CHR 0x1E, CHR 0x1F, CHR 0x20])"

definition strip :: "string \<Rightarrow> string" where
  "strip s = rev (dropWhile py_isspace (rev (dropWhile py_isspace s)))"

text \<open>\<open>_normalise\<close> of binance.py:
  \<open>symbol.upper().replace("/", "").replace("-", "").strip()\<close>.\<close>

definition normalise :: "string \<Rightarrow> string" where
  "normalise symbol =
     strip (filter (\<lambda>c. c \<noteq> CHR ''-'') (filter (\<lambda>c. c \<noteq> CHR ''/'') (upper symbol)))"

fun supports :: "provider \<Rightarrow> string \<Rightarrow> bool" where
  "supports Binance symbol = CRYPTO_RE (normalise symbol)"
| "supports YFinance symbol =
     (let up = upper symbol
      in CRYPTO_RE up \<or> FOREX_RE up \<or> STOCK_RE up \<or> INTL_STOCK_RE up)"
| "supports Tiingo symbol =
     (let up = upper symbol in TIINGO_STOCK_RE up \<or> INTL_STOCK_RE up)"
| "supports Finnhub symbol =
     (let up = upper symbol in STOCK_RE up \<or> INTL_STOCK_RE up \<or> FOREX_RE up)"

section \<open>The outside world\<close>

text \<open>
  The upstream services, the client libraries and the process environment are not part of
  the repository: they are parameters of the model. A call that can raise returns a sum.

  A raw row of an upstream answer is represented by what the source's conversion
  expressions for that row evaluate to: the integer time stamp, and the five floats, each
  either a value or the exception the expression raises (\<open>float("x")\<close> raises ValueError,
  \<open>row["open"]\<close> on a missing key raises KeyError, \<open>float(None)\<close> raises TypeError).
  A float that converts may be NaN: \<open>float("nan")\<close>, or a missing value of a data frame.
\<close>

record raw_row =
  r_time :: "py_exn + int"
  r_open :: "py_exn + pyfloat"
  r_high :: "py_exn + pyfloat"
  r_low :: "py_exn + pyfloat"
  r_close :: "py_exn + pyfloat"
  r_volume :: "py_exn + pyfloat"

text \<open>An aiohttp response to the klines request: the status and what \<open>resp.json()\<close> gives.\<close>

record aiohttp_resp =
  status :: int
  klines :: "py_exn + raw_row list"

text \<open>A requests response of Tiingo: the JSON body is a list of rows or something else.\<close>

datatype json_body = JList "raw_row list" | JOther

record requests_resp =
  status_code :: int
  json :: "py_exn + json_body"

text \<open>A Finnhub candle dictionary: the status \<open>s\<close> and the columns. A column that is
  missing is the empty list (the default of \<open>raw.get\<close>), except \<open>v\<close>, whose default
  depends on \<open>t\<close>. Each entry is what \<open>int(...)\<close> or \<open>float(...)\<close> of it evaluates to.\<close>

record fh_data =
  fh_s :: "string option"
  fh_t :: "(py_exn + int) list"
  fh_o :: "(py_exn + pyfloat) list"
  fh_h :: "(py_exn + pyfloat) list"
  fh_l :: "(py_exn + pyfloat) list"
  fh_c :: "(py_exn + pyfloat) list"
  fh_v :: "(py_exn + pyfloat) list option"

text \<open>
  The world: the environment, the clock with the date arithmetic on it, and the upstreams.

  \<open>start_date w interval limit\<close> is what yfinance.py and tiingo.py compute before their
  request, \<open>datetime.now(utc) - bar_delta * int(limit * 1.2 + 5)\<close>, where the interval
  fixes \<open>bar_delta\<close>: the start, as a number of days, or the OverflowError of Python when
  \<open>limit\<close> is too large for a float or the product or the difference leaves the range of
  \<open>timedelta\<close> or \<open>datetime\<close> (for daily bars, from a \<open>limit\<close> of about 616000 on).
  \<open>from_to_ts w interval limit\<close> is the pair \<open>(from_ts, to_ts)\<close> of finnhub.py,
  \<open>to_ts = int(time.time())\<close> and \<open>from_ts = to_ts - bar_sec * int(limit * 1.3 + 5)\<close>,
  or the OverflowError of \<open>limit * 1.3\<close>. Neither expression stands inside a \<open>try\<close>.

  The other fields are the upstream calls with the arguments the source passes.
\<close>

record world =
  getenv :: "string \<Rightarrow> string option"
  start_date :: "string \<Rightarrow> int \<Rightarrow> py_exn + int"
  from_to_ts :: "string \<Rightarrow> int \<Rightarrow> py_exn + int \<times> int"
  binance_get :: "string \<Rightarrow> string \<Rightarrow> int \<Rightarrow> py_exn + aiohttp_resp"
  yf_history :: "string \<Rightarrow> string \<Rightarrow> int \<Rightarrow> py_exn + raw_row list"
  tiingo_get :: "string \<Rightarrow> string \<Rightarrow> int \<Rightarrow> string \<Rightarrow> py_exn + requests_resp"
  finnhub_stock_candles ::
    "string \<Rightarrow> string \<Rightarrow> int \<Rightarrow> int \<Rightarrow> string \<Rightarrow> py_exn + fh_data option"
  finnhub_forex_candles ::
    "string \<Rightarrow> string \<Rightarrow> int \<Rightarrow> int \<Rightarrow> string \<Rightarrow> py_exn + fh_data option"

section \<open>Normalising rows\<close>

definition bind_exn :: "py_exn + 'a \<Rightarrow> ('a \<Rightarrow> py_exn + 'b) \<Rightarrow> py_exn + 'b" where
  "bind_exn m f = (case m of Inl e \<Rightarrow> Inl e | Inr x \<Rightarrow> f x)"

text \<open>The call \<open>Candle(time=..., open=..., high=..., low=..., close=..., volume=...)\<close>:
  the arguments are evaluated from left to right, the first exception wins, and the
  constructor runs last.\<close>

definition row_candle :: "raw_row \<Rightarrow> py_exn + candle" where
  "row_candle row =
     bind_exn (r_time row) (\<lambda>t.
     bind_exn (r_open row) (\<lambda>op.
     bind_exn (r_high row) (\<lambda>hi.
     bind_exn (r_low row) (\<lambda>lo.
     bind_exn (r_close row) (\<lambda>cl.
     bind_exn (r_volume row) (\<lambda>vol. Candle t op hi lo cl vol))))))"

text \<open>Binance gives milliseconds: \<open>int(row[0]) // 1000\<close> (floor division).\<close>

definition binance_candle :: "raw_row \<Rightarrow> py_exn + candle" where
  "binance_candle row =
     bind_exn (r_time row) (\<lambda>ms.
     bind_exn (r_open row) (\<lambda>op.
     bind_exn (r_high row) (\<lambda>hi.
     bind_exn (r_low row) (\<lambda>lo.
     bind_exn (r_close row) (\<lambda>cl.
     bind_exn (r_volume row) (\<lambda>vol. Candle (ms div 1000) op hi lo cl vol))))))"

text \<open>
  The loop \<open>for row in rows: try: candles.append(Candle(...)) except (...): continue\<close>
  over the rows' outcomes. \<open>caught\<close> is the tuple of the \<open>except\<close> clause; an exception
  outside it leaves the loop and the function. With \<open>caught = []\<close> this is the list
  comprehension of binance.py, which has no \<open>try\<close>.
\<close>

fun rows_loop :: "py_exn list \<Rightarrow> candle list \<Rightarrow> (py_exn + candle) list \<Rightarrow> py_exn + candle list" where
  "rows_loop caught candles [] = Inr candles"
| "rows_loop caught candles (r # rs) =
     (case r of
        Inr c \<Rightarrow> rows_loop caught (candles @ [c]) rs
      | Inl e \<Rightarrow> if e \<in> set caught then rows_loop caught candles rs else Inl e)"

text \<open>\<open>candles or None\<close>.\<close>

definition or_None :: "'a list \<Rightarrow> 'a list option" where
  "or_None xs = (if xs = [] then None else Some xs)"

text \<open>The slice \<open>xs[start:]\<close>. A negative start counts from the end and is clipped at the
  front of the list (the subtraction on \<open>nat\<close> stops at 0); \<open>xs[-0:]\<close> is \<open>xs[0:]\<close>.\<close>

definition slice_from :: "int \<Rightarrow> 'a list \<Rightarrow> 'a list" where
  "slice_from start xs =
     (if start < 0 then drop (length xs - nat (- start)) xs else drop (nat start) xs)"

text \<open>pandas' \<open>df.tail(n)\<close>: no row for \<open>n = 0\<close>, otherwise \<open>iloc[-n:]\<close>.\<close>

definition df_tail :: "int \<Rightarrow> 'a list \<Rightarrow> 'a list" where
  "df_tail n xs = (if n = 0 then [] else slice_from (- n) xs)"

section \<open>binance.py\<close>

definition BINANCE_VALID_INTERVALS :: "string list" where
  "BINANCE_VALID_INTERVALS =
     [''1m'', ''3m'', ''5m'', ''15m'', ''30m'', ''1h'', ''2h'', ''4h'', ''6h'', ''8h'', ''12h'',
      ''1d'', ''3d'', ''1w'', ''1M'']"

definition binance_fetch :: "world \<Rightarrow> string \<Rightarrow> string \<Rightarrow> int \<Rightarrow> py_exn + candle list option" where
  "binance_fetch w symbol interval limit =
     (let ticker = normalise symbol
      in if interval \<notin> set BINANCE_VALID_INTERVALS then Inr None
         else (case binance_get w ticker interval (min limit 1000) of
                 Inl e \<Rightarrow> Inl e
               | Inr resp \<Rightarrow>
                  if status resp \<noteq> 200 then Inr None
                  else (case klines resp of
                          Inl e \<Rightarrow> Inl e
                        | Inr data \<Rightarrow>
                            if data = [] then Inr None
                            else map_sum id Some (rows_loop [] [] (map binance_candle data)))))"

section \<open>yfinance.py\<close>

definition YF_INTERVAL_MAP :: "(string \<times> string) list" where
  "YF_INTERVAL_MAP =
     [(''1m'', ''1m''), (''5m'', ''5m''), (''15m'', ''15m''), (''1h'', ''1h''),
      (''1d'', ''1d''), (''1w'', ''1wk'')]"

definition YF_QUOTES :: "string list" where
  "YF_QUOTES = [''USDT'', ''USDC'', ''BUSD'', ''FDUSD'', ''BNB'', ''ETH'', ''BTC'']"

definition endswith :: "string \<Rightarrow> string \<Rightarrow> bool" where
  "endswith s q = (length q \<le> length s \<and> drop (length s - length q) s = q)"

definition to_yf_symbol :: "string \<Rightarrow> string" where
  "to_yf_symbol symbol =
     (let up = upper symbol
      in case find (endswith up) YF_QUOTES of
           Some quote \<Rightarrow>
             take (length up - length quote) up @ ''-''
               @ (if quote \<in> set [''USDT'', ''USDC'', ''BUSD'', ''FDUSD''] then ''USD'' else quote)
         | None \<Rightarrow> if FOREX_RE up then up @ ''=X'' else up)"

text \<open>\<open>YFinanceProvider._download\<close>: every exception becomes \<open>None\<close>, and so does an
  empty frame.\<close>

definition yf_download :: "world \<Rightarrow> string \<Rightarrow> string \<Rightarrow> int \<Rightarrow> raw_row list option" where
  "yf_download w ticker interval start =
     (case yf_history w ticker interval start of
        Inl e \<Rightarrow> None
      | Inr df \<Rightarrow> if df \<noteq> [] then Some df else None)"

definition yfinance_fetch :: "world \<Rightarrow> string \<Rightarrow> string \<Rightarrow> int \<Rightarrow> py_exn + candle list option" where
  "yfinance_fetch w symbol interval limit =
     (case map_of YF_INTERVAL_MAP interval of
        None \<Rightarrow> Inr None
      | Some yf_interval \<Rightarrow>
          (let ticker = to_yf_symbol symbol
           in case start_date w interval limit of
                Inl e \<Rightarrow> Inl e
              | Inr start \<Rightarrow>
                  (case yf_download w ticker yf_interval start of
                     None \<Rightarrow> Inr None
                   | Some df \<Rightarrow>
                       if df = [] then Inr None
                       else map_sum id or_None
                              (rows_loop [ValueError, KeyError] []
                                 (map row_candle (df_tail limit df))))))"

section \<open>tiingo.py\<close>

definition RESAMPLE :: "(string \<times> string) list" where
  "RESAMPLE = [(''1d'', ''daily''), (''1w'', ''weekly'')]"

text \<open>\<open>TiingoProvider._download\<close>: a status other than 200, a body that is not a list and
  every exception give \<open>None\<close>.\<close>

definition tiingo_download :: "world \<Rightarrow> string \<Rightarrow> string \<Rightarrow> int \<Rightarrow> string \<Rightarrow> raw_row list option" where
  "tiingo_download w ticker resample start api_key =
     (case tiingo_get w ticker resample start api_key of
        Inl e \<Rightarrow> None
      | Inr resp \<Rightarrow>
          if status_code resp \<noteq> 200 then None
          else (case json resp of
                  Inl e \<Rightarrow> None
                | Inr (JList data) \<Rightarrow> Some data
                | Inr JOther \<Rightarrow> None))"

text \<open>\<open>if not api_key\<close> holds for an unset variable and for an empty one.\<close>

definition tiingo_fetch :: "world \<Rightarrow> string \<Rightarrow> string \<Rightarrow> int \<Rightarrow> py_exn + candle list option" where
  "tiingo_fetch w symbol interval limit =
     (case map_of RESAMPLE interval of
        None \<Rightarrow> Inr None
      | Some resample \<Rightarrow>
          (case getenv w ''TIINGO_API_KEY'' of
             None \<Rightarrow> Inl RuntimeError
           | Some api_key \<Rightarrow>
               if api_key = [] then Inl RuntimeError
               else (case start_date w interval limit of
                       Inl e \<Rightarrow> Inl e
                     | Inr start \<Rightarrow>
                         (case tiingo_download w (upper symbol) resample start api_key of
                            None \<Rightarrow> Inr None
                          | Some rows \<Rightarrow>
                              if rows = [] then Inr None
                              else map_sum id or_None
                                     (rows_loop [KeyError, ValueError] []
                                        (map row_candle (slice_from (- limit) rows)))))))"

section \<open>finnhub.py\<close>

definition RESOLUTION_MAP :: "(string \<times> string) list" where
  "RESOLUTION_MAP =
     [(''1m'', ''1''), (''5m'', ''5''), (''15m'', ''15''), (''30m'', ''30''), (''1h'', ''60''),
      (''1d'', ''D''), (''1w'', ''W'')]"

definition to_forex_symbol :: "string \<Rightarrow> string" where
  "to_forex_symbol symbol = ''OANDA:'' @ take 3 symbol @ ''_'' @ drop 3 symbol"

text \<open>\<open>data if data and data.get("s") == "ok" else None\<close>, and \<open>None\<close> on any exception.\<close>

definition ok_or_None :: "py_exn + fh_data option \<Rightarrow> fh_data option" where
  "ok_or_None r =
     (case r of
        Inl e \<Rightarrow> None
      | Inr None \<Rightarrow> None
      | Inr (Some data) \<Rightarrow> if fh_s data = Some ''ok'' then Some data else None)"

definition fetch_stock ::
  "world \<Rightarrow> string \<Rightarrow> string \<Rightarrow> int \<Rightarrow> int \<Rightarrow> string \<Rightarrow> fh_data option" where
  "fetch_stock w symbol resolution from_ts to_ts api_key =
     ok_or_None (finnhub_stock_candles w symbol resolution from_ts to_ts api_key)"

definition fetch_forex ::
  "world \<Rightarrow> string \<Rightarrow> string \<Rightarrow> int \<Rightarrow> int \<Rightarrow> string \<Rightarrow> fh_data option" where
  "fetch_forex w symbol resolution from_ts to_ts api_key =
     ok_or_None
       (finnhub_forex_candles w (to_forex_symbol symbol) resolution from_ts to_ts api_key)"

text \<open>\<open>xs[i]\<close> on a column, converted: IndexError past the end.\<close>

definition column_at :: "(py_exn + 'a) list \<Rightarrow> nat \<Rightarrow> py_exn + 'a" where
  "column_at xs i = (if i < length xs then xs ! i else Inl IndexError)"

definition fh_candle :: "fh_data \<Rightarrow> (py_exn + pyfloat) list \<Rightarrow> nat \<Rightarrow> py_exn + candle" where
  "fh_candle raw volumes i =
     bind_exn (column_at (fh_t raw) i) (\<lambda>t.
     bind_exn (column_at (fh_o raw) i) (\<lambda>op.
     bind_exn (column_at (fh_h raw) i) (\<lambda>hi.
     bind_exn (column_at (fh_l raw) i) (\<lambda>lo.
     bind_exn (column_at (fh_c raw) i) (\<lambda>cl.
     bind_exn (if i < length volumes then volumes ! i else Inr (Fin 0)) (\<lambda>vol.
       Candle t op hi lo cl vol))))))"

text \<open>\<open>FinnhubProvider._parse\<close>. An empty dictionary has no time stamps and gives \<open>None\<close>
  like the early return does.\<close>

definition parse :: "fh_data option \<Rightarrow> int \<Rightarrow> py_exn + candle list option" where
  "parse raw limit =
     (case raw of
        None \<Rightarrow> Inr None
      | Some d \<Rightarrow>
          (let timestamps = fh_t d;
               volumes = (case fh_v d of
                            None \<Rightarrow> replicate (length timestamps) (Inr (Fin 0))
                          | Some vs \<Rightarrow> vs)
           in map_sum id (\<lambda>candles. or_None (slice_from (- limit) candles))
                (rows_loop [IndexError, KeyError, ValueError] []
                   (map (fh_candle d volumes) [0..<length timestamps]))))"

definition finnhub_fetch :: "world \<Rightarrow> string \<Rightarrow> string \<Rightarrow> int \<Rightarrow> py_exn + candle list option" where
  "finnhub_fetch w symbol interval limit =
     (case map_of RESOLUTION_MAP interval of
        None \<Rightarrow> Inr None
      | Some resolution \<Rightarrow>
          (case getenv w ''FINNHUB_API_KEY'' of
             None \<Rightarrow> Inl RuntimeError
           | Some api_key \<Rightarrow>
               if api_key = [] then Inl RuntimeError
               else (case from_to_ts w interval limit of
                       Inl e \<Rightarrow> Inl e
                     | Inr (from_ts, to_ts) \<Rightarrow>
                         (let up = upper symbol;
                              raw = (if FOREX_RE up
                                     then fetch_forex w up resolution from_ts to_ts api_key
                                     else fetch_stock w up resolution from_ts to_ts api_key)
                          in parse raw limit))))"

section \<open>The orchestrator (registry.py)\<close>

fun provider_fetch :: "world \<Rightarrow> provider \<Rightarrow> string \<Rightarrow> string \<Rightarrow> int \<Rightarrow> py_exn + candle list option" where
  "provider_fetch w Binance = binance_fetch w"
| "provider_fetch w YFinance = yfinance_fetch w"
| "provider_fetch w Tiingo = tiingo_fetch w"
| "provider_fetch w Finnhub = finnhub_fetch w"

text \<open>The intervals a provider honours: the members of its set, or the keys of its table.\<close>

fun supported_intervals :: "provider \<Rightarrow> string list" where
  "supported_intervals Binance = BINANCE_VALID_INTERVALS"
| "supported_intervals YFinance = map fst YF_INTERVAL_MAP"
| "supported_intervals Tiingo = map fst RESAMPLE"
| "supported_intervals Finnhub = map fst RESOLUTION_MAP"

text \<open>\<open>if result:\<close> holds for a list that is present and not empty.\<close>

definition truthy :: "'a list option \<Rightarrow> bool" where
  "truthy r = (case r of None \<Rightarrow> False | Some xs \<Rightarrow> xs \<noteq> [])"

text \<open>
  The loop of \<open>fetch\<close> over the chain. Besides the value the call returns (or the
  exception it raises), the model returns the providers whose \<open>fetch\<close> was called, in
  the order of the calls; \<open>calls\<close> is that record so far.
\<close>

fun fetch_loop ::
  "world \<Rightarrow> string \<Rightarrow> string \<Rightarrow> int \<Rightarrow> provider list \<Rightarrow> provider list
     \<Rightarrow> (py_exn + candle list option) \<times> provider list" where
  "fetch_loop w symbol interval limit calls [] = (Inr None, calls)"
| "fetch_loop w symbol interval limit calls (p # ps) =
     (if \<not> supports p symbol then fetch_loop w symbol interval limit calls ps
      else (case provider_fetch w p symbol interval limit of
              Inl e \<Rightarrow> (Inl e, calls @ [p])
            | Inr result \<Rightarrow>
                if truthy result then (Inr result, calls @ [p])
                else fetch_loop w symbol interval limit (calls @ [p]) ps))"

definition fetch :: "world \<Rightarrow> string \<Rightarrow> string \<Rightarrow> int \<Rightarrow> (py_exn + candle list option) \<times> provider list" where
  "fetch w symbol interval limit = fetch_loop w symbol interval limit [] (pick symbol)"

section \<open>Notions used in the statements\<close>

text \<open>A provider yields nothing for a request when the loop of \<open>fetch\<close> passes it by:
  it does not support the symbol, or its \<open>fetch\<close> returns \<open>None\<close> or an empty list.\<close>

definition yields_nothing :: "world \<Rightarrow> string \<Rightarrow> string \<Rightarrow> int \<Rightarrow> provider \<Rightarrow> bool" where
  "yields_nothing w symbol interval limit q =
     (\<not> supports q symbol \<or>
      (case provider_fetch w q symbol interval limit of Inl e \<Rightarrow> False | Inr r \<Rightarrow> \<not> truthy r))"

text \<open>The environment variable a provider reads in \<open>fetch\<close>, if it reads one.\<close>

fun credential :: "provider \<Rightarrow> string option" where
  "credential Binance = None"
| "credential YFinance = None"
| "credential Tiingo = Some ''TIINGO_API_KEY''"
| "credential Finnhub = Some ''FINNHUB_API_KEY''"

definition unset :: "world \<Rightarrow> string \<Rightarrow> bool" where
  "unset w var = (case getenv w var of None \<Rightarrow> True | Some v \<Rightarrow> v = [])"

text \<open>The values of the rows that converted.\<close>

fun successes :: "('e + 'a) list \<Rightarrow> 'a list" where
  "successes [] = []"
| "successes (Inl e # rs) = successes rs"
| "successes (Inr x # rs) = x # successes rs"

definition strictly_oldest_first :: "candle list \<Rightarrow> bool" where
  "strictly_oldest_first cs = sorted_wrt (<) (map time cs)"

definition returns_ordered :: "py_exn + candle list option \<Rightarrow> bool" where
  "returns_ordered r = (case r of Inr (Some cs) \<Rightarrow> strictly_oldest_first cs | _ \<Rightarrow> True)"

text \<open>Every upstream answers with rows whose time stamps, in seconds, strictly increase.\<close>

definition upstream_ordered :: "world \<Rightarrow> bool" where
  "upstream_ordered w =
     ((\<forall>ticker iv lim resp rows.
         binance_get w ticker iv lim = Inr resp \<and> klines resp = Inr rows \<longrightarrow>
         sorted_wrt (<) (map (\<lambda>ms. ms div 1000) (successes (map r_time rows)))) \<and>
      (\<forall>ticker iv lim rows.
         yf_history w ticker iv lim = Inr rows \<longrightarrow>
         sorted_wrt (<) (successes (map r_time rows))) \<and>
      (\<forall>ticker iv lim k resp rows.
         tiingo_get w ticker iv lim k = Inr resp \<and> json resp = Inr (JList rows) \<longrightarrow>
         sorted_wrt (<) (successes (map r_time rows))) \<and>
      (\<forall>ticker iv from_ts to_ts k d.
         finnhub_stock_candles w ticker iv from_ts to_ts k = Inr (Some d) \<longrightarrow>
         sorted_wrt (<) (successes (fh_t d))) \<and>
      (\<forall>ticker iv from_ts to_ts k d.
         finnhub_forex_candles w ticker iv from_ts to_ts k = Inr (Some d) \<longrightarrow>
         sorted_wrt (<) (successes (fh_t d))))"

subsection \<open>Example worlds\<close>

text \<open>A row all of whose fields convert, to finite floats.\<close>

definition row :: "int \<Rightarrow> real \<Rightarrow> real \<Rightarrow> real \<Rightarrow> real \<Rightarrow> real \<Rightarrow> raw_row" where
  "row t op hi lo cl vol =
     \<lparr>r_time = Inr t, r_open = Inr (Fin op), r_high = Inr (Fin hi), r_low = Inr (Fin lo),
      r_close = Inr (Fin cl), r_volume = Inr (Fin vol)\<rparr>"

text \<open>The candle with the given time and finite prices.\<close>

definition bar :: "int \<Rightarrow> real \<Rightarrow> real \<Rightarrow> real \<Rightarrow> real \<Rightarrow> real \<Rightarrow> candle" where
  "bar t op hi lo cl vol =
     \<lparr>time = t, open_p = Fin op, high = Fin hi, low = Fin lo, close = Fin cl,
      volume = Fin vol\<rparr>"

text \<open>No network and no keys; the date arithmetic stays in range.\<close>

definition offline :: world where
  "offline =
     \<lparr>getenv = (\<lambda>_. None),
      start_date = (\<lambda>_ _. Inr 739000),
      from_to_ts = (\<lambda>_ _. Inr (1790000000, 1800000000)),
      binance_get = (\<lambda>_ _ _. Inl ClientError),
      yf_history = (\<lambda>_ _ _. Inl ClientError),
      tiingo_get = (\<lambda>_ _ _ _. Inl ClientError),
      finnhub_stock_candles = (\<lambda>_ _ _ _ _. Inl ClientError),
      finnhub_forex_candles = (\<lambda>_ _ _ _ _. Inl ClientError)\<rparr>"

text \<open>Binance answers every klines request with status 200 and the given rows.\<close>

definition binance_only :: "raw_row list \<Rightarrow> world" where
  "binance_only rows =
     offline\<lparr>binance_get := (\<lambda>_ _ _. Inr \<lparr>status = 200, klines = Inr rows\<rparr>)\<rparr>"

text \<open>A Tiingo key is set and Tiingo answers with the given rows.\<close>

definition tiingo_only :: "raw_row list \<Rightarrow> world" where
  "tiingo_only rows =
     offline\<lparr>getenv := (\<lambda>var. if var = ''TIINGO_API_KEY'' then Some ''k'' else None),
             tiingo_get := (\<lambda>_ _ _ _. Inr \<lparr>status_code = 200, json = Inr (JList rows)\<rparr>)\<rparr>"

text \<open>As before, and yfinance answers with the same rows.\<close>

definition yf_and_tiingo :: "raw_row list \<Rightarrow> world" where
  "yf_and_tiingo rows = (tiingo_only rows)\<lparr>yf_history := (\<lambda>_ _ _. Inr rows)\<rparr>"

text \<open>A Finnhub key is set and the stock endpoint answers with the given dictionary.\<close>

definition finnhub_only :: "fh_data \<Rightarrow> world" where
  "finnhub_only d =
     offline\<lparr>getenv := (\<lambda>var. if var = ''FINNHUB_API_KEY'' then Some ''k'' else None),
             finnhub_stock_candles := (\<lambda>_ _ _ _ _. Inr (Some d))\<rparr>"

definition two_bars :: fh_data where
  "two_bars =
     \<lparr>fh_s = Some ''ok'', fh_t = [Inr 100, Inr 200], fh_o = [Inr (Fin 1), Inr (Fin 2)],
      fh_h = [Inr (Fin 3), Inr (Fin 4)], fh_l = [Inr (Fin 1), Inr (Fin 2)],
      fh_c = [Inr (Fin 2), Inr (Fin 3)], fh_v = None\<rparr>"

section \<open>Properties\<close>

subsection \<open>Evaluating the patterns and the worlds\<close>

lemmas re_defs = CRYPTO_RE_def STOCK_RE_def INTL_STOCK_RE_def FOREX_RE_def TIINGO_STOCK_RE_def
  anchored_def crypto_body_def stock_body_def intl_stock_body_def forex_body_def
  plain_stock_body_def QUOTES_def is_AZ_def is_AZ09_def upper_def upper_char_def

lemmas world_defs = offline_def binance_only_def tiingo_only_def yf_and_tiingo_def
  finnhub_only_def two_bars_def row_def bar_def

lemmas fetch_defs = binance_fetch_def yfinance_fetch_def tiingo_fetch_def finnhub_fetch_def
  yf_download_def tiingo_download_def fetch_stock_def fetch_forex_def ok_or_None_def parse_def
  fh_candle_def column_at_def row_candle_def binance_candle_def bind_exn_def Candle_def
  post_init_def or_None_def slice_from_def df_tail_def truthy_def
  BINANCE_VALID_INTERVALS_def YF_INTERVAL_MAP_def RESAMPLE_def RESOLUTION_MAP_def

subsection \<open>Candles\<close>

lemma Candle_cases:
  "Candle t op hi lo cl vol =
     (if float_lt hi lo \<or> t \<le> 0 then Inl ValueError
      else Inr \<lparr>time = t, open_p = op, high = hi, low = lo, close = cl, volume = vol\<rparr>)"
  by (simp add: Candle_def post_init_def Let_def)

lemma float_ge_iff_not_lt: "a \<noteq> NaN \<Longrightarrow> b \<noteq> NaN \<Longrightarrow> float_ge a b = (\<not> float_lt a b)"
  by (cases a; cases b) auto

text \<open>
  What the constructor does ensure. Construction raises ValueError exactly when
  \<open>high < low\<close> or \<open>time \<le> 0\<close>; in every other case the candle holds exactly the
  values it was given, nothing is clamped. A constructed candle has \<open>time > 0\<close> and not
  \<open>high < low\<close>, which is \<open>high \<ge> low\<close> when neither of the two is NaN.
\<close>

lemma Candle_checked:
  "(Candle t op hi lo cl vol = Inl ValueError \<longleftrightarrow> float_lt hi lo \<or> t \<le> 0) \<and>
   (\<not> (float_lt hi lo \<or> t \<le> 0) \<longrightarrow>
      Candle t op hi lo cl vol =
        Inr \<lparr>time = t, open_p = op, high = hi, low = lo, close = cl, volume = vol\<rparr>) \<and>
   (\<forall>x. Candle t op hi lo cl vol = Inr x \<longrightarrow>
      \<not> float_lt (high x) (low x) \<and> 0 < time x \<and>
      (high x \<noteq> NaN \<and> low x \<noteq> NaN \<longrightarrow> float_ge (high x) (low x)))"
  by (auto simp: Candle_cases float_ge_iff_not_lt)

text \<open>
  C9. The check of \<open>__post_init__\<close> is \<open>high < low\<close>, which is false when either side
  is NaN: \<open>Candle(time=1, open=1.0, high=nan, low=5.0, close=1.0)\<close> is constructed, and
  for it \<open>high >= low\<close> is false.
\<close>

theorem Candle_accepts_nan_high:
  "Candle 1 (Fin 1) NaN (Fin 5) (Fin 1) (Fin 0) =
     Inr \<lparr>time = 1, open_p = Fin 1, high = NaN, low = Fin 5, close = Fin 1, volume = Fin 0\<rparr>
   \<and> \<not> float_ge NaN (Fin 5)"
  by (simp add: Candle_cases)

subsection \<open>Routing\<close>

text \<open>
  C3. \<open>pick\<close> returns the chain that the routing table gives for the class of the symbol:
  Crypto: Binance, yfinance. Stock: yfinance, Tiingo, Finnhub. InternationalStock and
  Forex: yfinance, Finnhub. Unknown: Binance, yfinance, Tiingo, Finnhub.
\<close>

theorem pick_routing_table:
  "pick symbol = spec_chain (spec_classify symbol) \<and>
   pick symbol =
     (case spec_classify symbol of
        Crypto \<Rightarrow> [Binance, YFinance]
      | Stock \<Rightarrow> [YFinance, Tiingo, Finnhub]
      | InternationalStock \<Rightarrow> [YFinance, Finnhub]
      | Forex \<Rightarrow> [YFinance, Finnhub]
      | Unknown \<Rightarrow> [Binance, YFinance, Tiingo, Finnhub])"
  by (simp add: pick_def spec_classify_def Let_def)

theorem pick_routing_table_witness:
  "spec_classify ''WM.TO'' = InternationalStock \<and> pick ''WM.TO'' = [YFinance, Finnhub] \<and>
   spec_classify ''ZZZ999!!'' = Unknown \<and>
   pick ''ZZZ999!!'' = [Binance, YFinance, Tiingo, Finnhub] \<and>
   spec_classify ''AAPL'' = Stock \<and> pick ''AAPL'' = [YFinance, Tiingo, Finnhub]"
proof -
  have "spec_classify ''WM.TO'' = InternationalStock"
    by (simp add: spec_classify_def re_defs)
  moreover have "spec_classify ''ZZZ999!!'' = Unknown"
    by (simp add: spec_classify_def re_defs)
  moreover have "spec_classify ''AAPL'' = Stock"
    by (simp add: spec_classify_def re_defs)
  ultimately show ?thesis
    using pick_routing_table [of "''WM.TO''"] pick_routing_table [of "''ZZZ999!!''"]
      pick_routing_table [of "''AAPL''"]
    by simp
qed

text \<open>
  C2. The tests run in the order crypto, stock, international, forex, and the first that
  matches decides. A symbol that matches the crypto pattern is Crypto and its chain
  starts with Binance, whatever else it matches.
\<close>

theorem crypto_first_match_wins:
  "(CRYPTO_RE (upper symbol) \<longrightarrow>
      spec_classify symbol = Crypto \<and> pick symbol = [Binance, YFinance]
      \<and> hd (pick symbol) = Binance) \<and>
   (\<not> CRYPTO_RE (upper symbol) \<and> STOCK_RE (upper symbol) \<longrightarrow>
      spec_classify symbol = Stock \<and> pick symbol = [YFinance, Tiingo, Finnhub]) \<and>
   (\<not> CRYPTO_RE (upper symbol) \<and> \<not> STOCK_RE (upper symbol) \<and> INTL_STOCK_RE (upper symbol) \<longrightarrow>
      spec_classify symbol = InternationalStock \<and> pick symbol = [YFinance, Finnhub]) \<and>
   (\<not> CRYPTO_RE (upper symbol) \<and> \<not> STOCK_RE (upper symbol) \<and> \<not> INTL_STOCK_RE (upper symbol)
      \<and> FOREX_RE (upper symbol) \<longrightarrow>
      spec_classify symbol = Forex \<and> pick symbol = [YFinance, Finnhub]) \<and>
   (\<not> CRYPTO_RE (upper symbol) \<and> \<not> STOCK_RE (upper symbol) \<and> \<not> INTL_STOCK_RE (upper symbol)
      \<and> \<not> FOREX_RE (upper symbol) \<longrightarrow>
      spec_classify symbol = Unknown \<and> pick symbol = [Binance, YFinance, Tiingo, Finnhub])"
  by (simp add: pick_def spec_classify_def Let_def)

theorem crypto_first_match_wins_witness:
  "CRYPTO_RE (upper ''ETHBTC'') \<and> FOREX_RE (upper ''ETHBTC'') \<and>
   spec_classify ''ETHBTC'' = Crypto \<and> hd (pick ''ETHBTC'') = Binance \<and>
   CRYPTO_RE (upper ''ABBTC'') \<and> STOCK_RE (upper ''ABBTC'') \<and>
   spec_classify ''ABBTC'' = Crypto \<and> hd (pick ''ABBTC'') = Binance \<and>
   \<not> CRYPTO_RE (upper ''EURUSD'') \<and> spec_classify ''EURUSD'' = Forex"
proof -
  have a: "CRYPTO_RE (upper ''ETHBTC'')" "FOREX_RE (upper ''ETHBTC'')"
    by (simp_all add: re_defs)
  have b: "CRYPTO_RE (upper ''ABBTC'')" "STOCK_RE (upper ''ABBTC'')"
    by (simp_all add: re_defs)
  have c: "\<not> CRYPTO_RE (upper ''EURUSD'')" "\<not> STOCK_RE (upper ''EURUSD'')"
    "\<not> INTL_STOCK_RE (upper ''EURUSD'')" "FOREX_RE (upper ''EURUSD'')"
    by (simp_all add: re_defs)
  show ?thesis
    using a b c crypto_first_match_wins [of "''ETHBTC''"] crypto_first_match_wins [of "''ABBTC''"]
      crypto_first_match_wins [of "''EURUSD''"]
    by simp
qed

subsection \<open>The loop over the chain\<close>

lemma fetch_loop_nothing:
  "\<forall>q\<in>set ps. yields_nothing w symbol interval limit q \<Longrightarrow>
   fetch_loop w symbol interval limit calls ps =
     (Inr None, calls @ filter (\<lambda>q. supports q symbol) ps)"
  by (induction ps arbitrary: calls) (auto simp: yields_nothing_def split: sum.splits)

lemma fetch_loop_reaches:
  "\<forall>q\<in>set before. yields_nothing w symbol interval limit q \<Longrightarrow> supports p symbol \<Longrightarrow>
   fetch_loop w symbol interval limit calls (before @ p # after) =
     (case provider_fetch w p symbol interval limit of
        Inl e \<Rightarrow> (Inl e, calls @ filter (\<lambda>q. supports q symbol) before @ [p])
      | Inr r \<Rightarrow>
          if truthy r then (Inr r, calls @ filter (\<lambda>q. supports q symbol) before @ [p])
          else fetch_loop w symbol interval limit
                 (calls @ filter (\<lambda>q. supports q symbol) before @ [p]) after)"
  by (induction before arbitrary: calls) (auto simp: yields_nothing_def split: sum.splits)

lemma fetch_loop_calls:
  "set (snd (fetch_loop w symbol interval limit calls ps))
     \<subseteq> set calls \<union> {q \<in> set ps. supports q symbol}"
proof (induction ps arbitrary: calls)
  case Nil
  show ?case by simp
next
  case (Cons a ps)
  have skip: "set (snd (fetch_loop w symbol interval limit calls ps))
      \<subseteq> set calls \<union> {q \<in> set ps. supports q symbol}"
    by (rule Cons.IH)
  have more: "set (snd (fetch_loop w symbol interval limit (calls @ [a]) ps))
      \<subseteq> set (calls @ [a]) \<union> {q \<in> set ps. supports q symbol}"
    by (rule Cons.IH)
  show ?case
  proof (cases "supports a symbol")
    case False
    with skip show ?thesis by auto
  next
    case True
    with more show ?thesis
      by (cases "provider_fetch w a symbol interval limit") auto
  qed
qed

lemma fetch_loop_source:
  "fst (fetch_loop w symbol interval limit calls ps) = Inr (Some cs) \<Longrightarrow>
   \<exists>p\<in>set ps. supports p symbol
      \<and> provider_fetch w p symbol interval limit = Inr (Some cs) \<and> cs \<noteq> []"
  by (induction ps arbitrary: calls)
     (auto simp: truthy_def split: if_splits sum.splits option.splits)

text \<open>
  C1. \<open>fetch\<close> walks the chain in order. When every provider before \<open>p\<close> yields nothing
  and \<open>p\<close> supports the symbol and returns a list that is not empty, \<open>fetch\<close> returns that
  list, and the calls made are those to the supporting providers before \<open>p\<close>, then \<open>p\<close>:
  no provider after \<open>p\<close> is called. When every provider of the chain yields nothing,
  \<open>fetch\<close> returns \<open>None\<close> and raises nothing. In every run, only providers that support
  the symbol are called.
\<close>

theorem fetch_first_success_wins:
  "(pick symbol = before @ p # after
      \<and> (\<forall>q\<in>set before. yields_nothing w symbol interval limit q)
      \<and> supports p symbol
      \<and> provider_fetch w p symbol interval limit = Inr (Some cs) \<and> cs \<noteq> []
      \<longrightarrow> fetch w symbol interval limit =
            (Inr (Some cs), filter (\<lambda>q. supports q symbol) before @ [p]))
   \<and> ((\<forall>q\<in>set (pick symbol). yields_nothing w symbol interval limit q)
      \<longrightarrow> fetch w symbol interval limit =
            (Inr None, filter (\<lambda>q. supports q symbol) (pick symbol)))
   \<and> (\<forall>q\<in>set (snd (fetch w symbol interval limit)). supports q symbol)"
proof (intro conjI impI)
  assume "pick symbol = before @ p # after
      \<and> (\<forall>q\<in>set before. yields_nothing w symbol interval limit q)
      \<and> supports p symbol
      \<and> provider_fetch w p symbol interval limit = Inr (Some cs) \<and> cs \<noteq> []"
  then show "fetch w symbol interval limit =
      (Inr (Some cs), filter (\<lambda>q. supports q symbol) before @ [p])"
    by (simp add: fetch_def fetch_loop_reaches truthy_def)
next
  assume "\<forall>q\<in>set (pick symbol). yields_nothing w symbol interval limit q"
  then show "fetch w symbol interval limit =
      (Inr None, filter (\<lambda>q. supports q symbol) (pick symbol))"
    by (simp add: fetch_def fetch_loop_nothing)
next
  show "\<forall>q\<in>set (snd (fetch w symbol interval limit)). supports q symbol"
    using fetch_loop_calls [of w symbol interval limit "[]" "pick symbol"]
    by (auto simp: fetch_def)
qed

lemma pick_GSPC: "pick ''^GSPC'' = [YFinance, Tiingo, Finnhub]"
  by (simp add: pick_def re_defs)

lemma pick_AAPL: "pick ''AAPL'' = [YFinance, Tiingo, Finnhub]"
  by (simp add: pick_def re_defs)

lemma supports_GSPC:
  "supports YFinance ''^GSPC''" "\<not> supports Tiingo ''^GSPC''" "supports Finnhub ''^GSPC''"
  by (simp_all add: re_defs)

lemma supports_AAPL:
  "supports YFinance ''AAPL''" "supports Tiingo ''AAPL''" "supports Finnhub ''AAPL''"
  by (simp_all add: re_defs)

lemma offline_yfinance: "yfinance_fetch offline symbol interval limit = Inr None"
  by (simp add: yfinance_fetch_def yf_download_def offline_def Let_def split: option.splits)

lemma finnhub_only_yfinance: "yfinance_fetch (finnhub_only d) symbol interval limit = Inr None"
  by (simp add: yfinance_fetch_def yf_download_def finnhub_only_def offline_def Let_def
      split: option.splits)

lemma finnhub_two_bars:
  "finnhub_fetch (finnhub_only two_bars) ''^GSPC'' ''1d'' 5 =
     Inr (Some [bar 100 1 3 1 2 0,
                bar 200 2 4 2 3 0])"
  by (simp add: fetch_defs world_defs re_defs Let_def)

theorem fetch_first_success_wins_witness:
  "fetch (finnhub_only two_bars) ''^GSPC'' ''1d'' 5 =
     (Inr (Some [bar 100 1 3 1 2 0,
                 bar 200 2 4 2 3 0]),
      [YFinance, Finnhub])
   \<and> fetch offline ''AAPL'' ''4h'' 100 = (Inr None, [YFinance, Tiingo, Finnhub])"
proof -
  have a: "\<forall>q\<in>set [YFinance, Tiingo]. yields_nothing (finnhub_only two_bars) ''^GSPC'' ''1d'' 5 q"
    by (simp add: yields_nothing_def supports_GSPC finnhub_only_yfinance truthy_def
        del: supports.simps)
  have b: "\<forall>q\<in>set (pick ''AAPL''). yields_nothing offline ''AAPL'' ''4h'' 100 q"
    by (simp add: pick_AAPL yields_nothing_def offline_yfinance truthy_def
        tiingo_fetch_def finnhub_fetch_def RESAMPLE_def RESOLUTION_MAP_def
        del: supports.simps)
  show ?thesis
    using a b
      fetch_first_success_wins [where symbol = "''^GSPC''" and w = "finnhub_only two_bars"
        and interval = "''1d''" and limit = 5 and before = "[YFinance, Tiingo]"
        and p = Finnhub and after = "[]"]
      fetch_first_success_wins [where symbol = "''AAPL''" and w = offline
        and interval = "''4h''" and limit = 100]
    by (simp add: pick_GSPC pick_AAPL supports_GSPC supports_AAPL finnhub_two_bars
        del: supports.simps)
qed

subsection \<open>Intervals and credentials\<close>

lemma missing_key_raises:
  "credential p = Some var \<Longrightarrow> unset w var \<Longrightarrow> interval \<in> set (supported_intervals p) \<Longrightarrow>
   provider_fetch w p symbol interval limit = Inl RuntimeError"
  by (cases p)
     (auto simp: tiingo_fetch_def finnhub_fetch_def unset_def map_of_eq_None_iff
           split: option.splits)

lemma unsupported_interval_None:
  assumes "interval \<notin> set (supported_intervals p)"
  shows "provider_fetch w p symbol interval limit = Inr None"
proof (cases p)
  case Binance
  with assms show ?thesis by (simp add: binance_fetch_def)
next
  case YFinance
  with assms have "map_of YF_INTERVAL_MAP interval = None"
    by (simp add: map_of_eq_None_iff)
  with YFinance show ?thesis by (simp add: yfinance_fetch_def)
next
  case Tiingo
  with assms have "map_of RESAMPLE interval = None"
    by (simp add: map_of_eq_None_iff)
  with Tiingo show ?thesis by (simp add: tiingo_fetch_def)
next
  case Finnhub
  with assms have "map_of RESOLUTION_MAP interval = None"
    by (simp add: map_of_eq_None_iff)
  with Finnhub show ?thesis by (simp add: finnhub_fetch_def)
qed

lemma offline_unset: "unset offline var"
  by (simp add: unset_def offline_def)

text \<open>
  C4. A provider that reads a key (Tiingo, Finnhub) and is called with a supported interval
  while the key is unset raises RuntimeError. When the walk over the chain reaches such a
  provider, the whole \<open>fetch\<close> raises that error and the calls end with this provider:
  no later provider is tried.
\<close>

theorem missing_credential_aborts_chain:
  "pick symbol = before @ p # after \<Longrightarrow>
   \<forall>q\<in>set before. yields_nothing w symbol interval limit q \<Longrightarrow>
   supports p symbol \<Longrightarrow>
   credential p = Some var \<Longrightarrow> unset w var \<Longrightarrow>
   interval \<in> set (supported_intervals p) \<Longrightarrow>
   provider_fetch w p symbol interval limit = Inl RuntimeError \<and>
   fetch w symbol interval limit =
     (Inl RuntimeError, filter (\<lambda>q. supports q symbol) before @ [p])"
  by (simp add: fetch_def fetch_loop_reaches missing_key_raises)

theorem missing_credential_aborts_chain_witness:
  "provider_fetch offline Tiingo ''AAPL'' ''1d'' 100 = Inl RuntimeError \<and>
   fetch offline ''AAPL'' ''1d'' 100 = (Inl RuntimeError, [YFinance, Tiingo])"
proof -
  have a: "\<forall>q\<in>set [YFinance]. yields_nothing offline ''AAPL'' ''1d'' 100 q"
    by (simp add: yields_nothing_def offline_yfinance truthy_def del: supports.simps)
  have b: "''1d'' \<in> set (supported_intervals Tiingo)"
    by (simp add: RESAMPLE_def)
  show ?thesis
    using missing_credential_aborts_chain [where symbol = "''AAPL''" and before = "[YFinance]"
        and p = Tiingo and after = "[Finnhub]" and w = offline and interval = "''1d''"
        and limit = 100 and var = "''TIINGO_API_KEY''", OF _ a _ _ offline_unset b]
    by (simp add: pick_AAPL supports_AAPL del: supports.simps)
qed

text \<open>
  C8. For every provider, \<open>fetch\<close> with an interval outside the provider's supported set
  returns \<open>None\<close> and raises nothing.
\<close>

theorem unsupported_interval_is_absent:
  "interval \<notin> set (supported_intervals p) \<Longrightarrow>
   provider_fetch w p symbol interval limit = Inr None"
  by (rule unsupported_interval_None)

theorem unsupported_interval_is_absent_witness:
  "''4h'' \<notin> set (supported_intervals YFinance) \<and>
   ''4h'' \<notin> set (supported_intervals Tiingo) \<and>
   ''4h'' \<notin> set (supported_intervals Finnhub) \<and>
   provider_fetch (tiingo_only []) YFinance ''AAPL'' ''4h'' 100 = Inr None \<and>
   provider_fetch (tiingo_only []) Tiingo ''AAPL'' ''4h'' 100 = Inr None \<and>
   provider_fetch (tiingo_only []) Finnhub ''AAPL'' ''4h'' 100 = Inr None"
proof -
  have a: "''4h'' \<notin> set (supported_intervals YFinance)"
    by (simp add: YF_INTERVAL_MAP_def)
  have b: "''4h'' \<notin> set (supported_intervals Tiingo)"
    by (simp add: RESAMPLE_def)
  have c: "''4h'' \<notin> set (supported_intervals Finnhub)"
    by (simp add: RESOLUTION_MAP_def)
  show ?thesis
    using a b c
      unsupported_interval_is_absent [OF a, of "tiingo_only []" "''AAPL''" 100]
      unsupported_interval_is_absent [OF b, of "tiingo_only []" "''AAPL''" 100]
      unsupported_interval_is_absent [OF c, of "tiingo_only []" "''AAPL''" 100]
    by simp
qed

text \<open>
  C10. In Tiingo and Finnhub the interval is checked before the key: with the key unset,
  \<open>fetch\<close> returns \<open>None\<close> for an unsupported interval and raises RuntimeError exactly
  for a supported one.
\<close>

theorem interval_check_precedes_credential_check:
  "credential p = Some var \<Longrightarrow> unset w var \<Longrightarrow>
   provider_fetch w p symbol interval limit =
     (if interval \<in> set (supported_intervals p) then Inl RuntimeError else Inr None)"
  by (simp add: missing_key_raises unsupported_interval_None)

theorem interval_check_precedes_credential_check_witness:
  "provider_fetch offline Tiingo ''AAPL'' ''4h'' 100 = Inr None \<and>
   provider_fetch offline Tiingo ''AAPL'' ''1w'' 100 = Inl RuntimeError \<and>
   provider_fetch offline Finnhub ''EURUSD'' ''4h'' 100 = Inr None \<and>
   provider_fetch offline Finnhub ''EURUSD'' ''30m'' 100 = Inl RuntimeError"
  using
    interval_check_precedes_credential_check [of Tiingo "''TIINGO_API_KEY''" offline "''AAPL''" "''4h''" 100]
    interval_check_precedes_credential_check [of Tiingo "''TIINGO_API_KEY''" offline "''AAPL''" "''1w''" 100]
    interval_check_precedes_credential_check [of Finnhub "''FINNHUB_API_KEY''" offline "''EURUSD''" "''4h''" 100]
    interval_check_precedes_credential_check [of Finnhub "''FINNHUB_API_KEY''" offline "''EURUSD''" "''30m''" 100]
  by (simp add: offline_unset RESAMPLE_def RESOLUTION_MAP_def)

subsection \<open>The loop over the rows\<close>

lemma successes_append: "successes (xs @ ys) = successes xs @ successes ys"
  by (induction xs rule: successes.induct) auto

lemma length_successes: "length (successes xs) \<le> length xs"
  by (induction xs rule: successes.induct) auto

lemma rows_loop_Inr:
  "rows_loop caught acc outs = Inr cs \<Longrightarrow> cs = acc @ successes outs"
  by (induction outs arbitrary: acc) (fastforce split: sum.splits if_splits)+

text \<open>Inside a \<open>try\<close> that catches them, failing rows are dropped and the others kept.\<close>

lemma rows_loop_caught:
  "\<forall>e. Inl e \<in> set outs \<longrightarrow> e \<in> set caught \<Longrightarrow>
   rows_loop caught acc outs = Inr (acc @ successes outs)"
  by (induction outs arbitrary: acc) (auto split: sum.splits)

text \<open>Without a \<open>try\<close>, one failing row ends the loop with its exception.\<close>

lemma rows_loop_uncaught:
  "Inl e \<in> set outs \<Longrightarrow> \<exists>e'. rows_loop [] acc outs = Inl e'"
  by (induction outs arbitrary: acc) (auto split: sum.splits)

text \<open>With a \<open>try\<close>, an exception outside the \<open>except\<close> tuple still ends the loop: the
  loops of tiingo.py and finnhub.py do not catch TypeError.\<close>

lemma rows_loop_first_uncaught:
  "\<forall>e'. Inl e' \<in> set pre \<longrightarrow> e' \<in> set caught \<Longrightarrow> e \<notin> set caught \<Longrightarrow>
   rows_loop caught acc (pre @ Inl e # post) = Inl e"
  by (induction pre arbitrary: acc) (auto split: sum.splits)

lemma row_candle_bad_high_low:
  "hi < lo \<Longrightarrow> row_candle (row t op hi lo cl vol) = Inl ValueError"
  by (simp add: row_candle_def row_def bind_exn_def Candle_cases)

lemma binance_candle_bad_high_low:
  "hi < lo \<Longrightarrow> binance_candle (row t op hi lo cl vol) = Inl ValueError"
  by (simp add: binance_candle_def row_def bind_exn_def Candle_cases)

lemma pick_BTCUSDT: "pick ''BTCUSDT'' = [Binance, YFinance]"
  by (simp add: pick_def re_defs)

lemma supports_BTCUSDT: "supports Binance ''BTCUSDT''"
  by (simp add: normalise_def strip_def py_isspace_def re_defs)

text \<open>
  C5. Binance: the list comprehension of \<open>BinanceProvider.fetch\<close> has no \<open>try\<close>. With a
  batch of three rows whose second has \<open>high < low\<close>, the constructor's ValueError leaves
  \<open>fetch\<close>: the two valid rows are not returned.
\<close>

theorem binance_bad_row_aborts_batch:
  "fetch (binance_only [row 1000 1 2 1 1 7, row 2000 1 1 2 1 7, row 3000 1 2 1 1 7])
     ''BTCUSDT'' ''1d'' 5 = (Inl ValueError, [Binance])"
  by (simp add: fetch_def pick_BTCUSDT supports_BTCUSDT fetch_defs world_defs Let_def
      del: supports.simps)

text \<open>The same batch through yfinance, whose loop has a \<open>try\<close>: the bad row is dropped
  and the two valid rows are returned.\<close>

lemma yfinance_drops_bad_row:
  "yfinance_fetch (yf_and_tiingo [row 1000 1 2 1 1 7, row 2000 1 1 2 1 7, row 3000 1 2 1 1 7])
     ''AAPL'' ''1d'' 5 =
   Inr (Some [bar 1000 1 2 1 1 7,
              bar 3000 1 2 1 1 7])"
  by (simp add: fetch_defs world_defs)

text \<open>A NaN reaches the constructor from an upstream row: yfinance answers with one row
  whose \<open>High\<close> is NaN, and the candle is built and returned.\<close>

lemma yfinance_returns_nan_high:
  "yfinance_fetch
     (offline\<lparr>yf_history := (\<lambda>_ _ _. Inr [(row 100 1 2 5 1 7)\<lparr>r_high := Inr NaN\<rparr>])\<rparr>)
     ''AAPL'' ''1d'' 5 =
   Inr (Some [(bar 100 1 2 5 1 7)\<lparr>high := NaN\<rparr>])"
  by (simp add: fetch_defs world_defs)

subsection \<open>The date arithmetic\<close>

text \<open>With a supported interval (and, for Tiingo, a key), an OverflowError of the start
  date leaves \<open>fetch\<close> of yfinance and Tiingo, and one of the time stamps that of
  Finnhub: none of the three expressions stands inside a \<open>try\<close>.\<close>

lemma start_date_overflow:
  assumes "start_date w interval limit = Inl OverflowError"
  shows "interval \<in> set (supported_intervals YFinance) \<longrightarrow>
           yfinance_fetch w symbol interval limit = Inl OverflowError"
    and "interval \<in> set (supported_intervals Tiingo) \<and> \<not> unset w ''TIINGO_API_KEY'' \<longrightarrow>
           tiingo_fetch w symbol interval limit = Inl OverflowError"
proof -
  show "interval \<in> set (supported_intervals YFinance) \<longrightarrow>
           yfinance_fetch w symbol interval limit = Inl OverflowError"
    using assms
    by (cases "map_of YF_INTERVAL_MAP interval")
       (auto simp: yfinance_fetch_def Let_def map_of_eq_None_iff)
  show "interval \<in> set (supported_intervals Tiingo) \<and> \<not> unset w ''TIINGO_API_KEY'' \<longrightarrow>
           tiingo_fetch w symbol interval limit = Inl OverflowError"
    using assms
    by (cases "map_of RESAMPLE interval"; cases "getenv w ''TIINGO_API_KEY''")
       (auto simp: tiingo_fetch_def unset_def map_of_eq_None_iff)
qed

lemma from_to_ts_overflow:
  assumes "from_to_ts w interval limit = Inl OverflowError"
    and "interval \<in> set (supported_intervals Finnhub)" and "\<not> unset w ''FINNHUB_API_KEY''"
  shows "finnhub_fetch w symbol interval limit = Inl OverflowError"
  using assms
  by (cases "map_of RESOLUTION_MAP interval"; cases "getenv w ''FINNHUB_API_KEY''")
     (auto simp: finnhub_fetch_def unset_def map_of_eq_None_iff)

subsection \<open>The number of candles\<close>

lemma fetch_nonempty:
  "fst (fetch w symbol interval limit) = Inr (Some cs) \<Longrightarrow> cs \<noteq> []"
  using fetch_loop_source [of w symbol interval limit "[]" "pick symbol" cs]
  by (auto simp: fetch_def)

lemma slice_from_length: "0 < n \<Longrightarrow> length (slice_from (- n) xs) \<le> nat n"
  by (auto simp: slice_from_def)

lemma df_tail_length: "0 \<le> n \<Longrightarrow> length (df_tail n xs) \<le> nat n"
  by (auto simp: df_tail_def slice_from_def)

text \<open>For a positive \<open>limit\<close>, yfinance, Tiingo and Finnhub return at most \<open>limit\<close>
  candles. Binance sends \<open>limit\<close> upstream and returns every row of the answer.\<close>

lemma positive_limit_bound:
  assumes "0 < limit" and "p \<noteq> Binance"
    and "provider_fetch w p symbol interval limit = Inr (Some cs)"
  shows "length cs \<le> nat limit"
proof (cases p)
  case Binance
  with assms(2) show ?thesis by simp
next
  case YFinance
  with assms(3) obtain df where
    "rows_loop [ValueError, KeyError] [] (map row_candle (df_tail limit df)) = Inr cs"
    by (auto simp: yfinance_fetch_def map_sum_def or_None_def Let_def
        split: option.splits sum.splits if_splits)
  then have "cs = successes (map row_candle (df_tail limit df))"
    by (auto dest: rows_loop_Inr)
  then have "length cs \<le> length (df_tail limit df)"
    using length_successes [of "map row_candle (df_tail limit df)"] by simp
  with assms(1) df_tail_length [of limit df] show ?thesis by simp
next
  case Tiingo
  with assms(3) obtain rows where
    "rows_loop [KeyError, ValueError] [] (map row_candle (slice_from (- limit) rows)) = Inr cs"
    by (auto simp: tiingo_fetch_def map_sum_def or_None_def
        split: option.splits sum.splits if_splits)
  then have "cs = successes (map row_candle (slice_from (- limit) rows))"
    by (auto dest: rows_loop_Inr)
  then have "length cs \<le> length (slice_from (- limit) rows)"
    using length_successes [of "map row_candle (slice_from (- limit) rows)"] by simp
  with assms(1) slice_from_length [of limit rows] show ?thesis by simp
next
  case Finnhub
  with assms(3) obtain raw where "parse raw limit = Inr (Some cs)"
    by (auto simp: finnhub_fetch_def Let_def split: option.splits if_splits sum.splits prod.splits)
  then obtain candles where "cs = slice_from (- limit) candles"
    by (auto simp: parse_def Let_def map_sum_def or_None_def
        split: option.splits sum.splits if_splits)
  with assms(1) slice_from_length [of limit candles] show ?thesis by simp
qed

text \<open>
  C6. With \<open>limit = 0\<close>: yfinance takes \<open>df.tail(0)\<close>, which is empty, and reports
  \<open>None\<close>; Tiingo takes \<open>rows[-0:]\<close>, which is every row, and \<open>fetch\<close> returns three
  candles.
\<close>

theorem limit_zero_returns_every_row:
  "fetch (yf_and_tiingo [row 100 1 2 1 1 7, row 200 1 2 1 1 7, row 300 1 2 1 1 7])
     ''AAPL'' ''1d'' 0 =
   (Inr (Some [bar 100 1 2 1 1 7,
               bar 200 1 2 1 1 7,
               bar 300 1 2 1 1 7]),
    [YFinance, Tiingo])"
  by (simp add: fetch_def pick_AAPL supports_AAPL fetch_defs world_defs
      del: supports.simps)

subsection \<open>The order of the candles\<close>

lemma sorted_wrt_drop_list: "sorted_wrt R xs \<Longrightarrow> sorted_wrt R (drop n xs)"
  by (metis append_take_drop_id sorted_wrt_append)

text \<open>When each converted item of \<open>g\<close> carries the key of the matching item of \<open>f\<close>, the
  keys of \<open>g\<close>'s successes are picked in order from those of \<open>f\<close>'s successes.\<close>

lemma successes_subordered:
  assumes "\<And>x c. x \<in> set xs \<Longrightarrow> g x = Inr c \<Longrightarrow> \<exists>t. f x = Inr t \<and> k c = h t"
    and "sorted_wrt R (map h (successes (map f xs)))"
  shows "sorted_wrt R (map k (successes (map g xs))) \<and>
         set (map k (successes (map g xs))) \<subseteq> set (map h (successes (map f xs)))"
  using assms
proof (induction xs)
  case Nil
  then show ?case by simp
next
  case (Cons x xs)
  have tl: "\<And>y c. y \<in> set xs \<Longrightarrow> g y = Inr c \<Longrightarrow> \<exists>t. f y = Inr t \<and> k c = h t"
    using Cons.prems(1) by simp
  show ?case
  proof (cases "f x")
    case (Inl e)
    then have gx: "\<exists>e'. g x = Inl e'"
      using Cons.prems(1) [of x] by (cases "g x") auto
    from Inl Cons.prems(2) have "sorted_wrt R (map h (successes (map f xs)))" by simp
    with Cons.IH tl Inl gx show ?thesis by auto
  next
    case (Inr t)
    with Cons.prems(2) have s: "sorted_wrt R (map h (successes (map f xs)))"
      and a: "\<forall>y\<in>set (map h (successes (map f xs))). R (h t) y"
      by simp_all
    from Cons.IH tl s have ih: "sorted_wrt R (map k (successes (map g xs)))"
      "set (map k (successes (map g xs))) \<subseteq> set (map h (successes (map f xs)))"
      by blast+
    show ?thesis
    proof (cases "g x")
      case (Inl e)
      with ih Inr show ?thesis by auto
    next
      case (Inr c)
      with Cons.prems(1) [of x c] \<open>f x = Inr t\<close> have "k c = h t" by simp
      with ih a Inr \<open>f x = Inr t\<close> show ?thesis by auto
    qed
  qed
qed

lemma successes_drop_sorted:
  assumes "sorted_wrt R (map h (successes (map f xs)))"
  shows "sorted_wrt R (map h (successes (map f (drop n xs))))"
proof -
  have "map f xs = map f (take n xs) @ map f (drop n xs)"
    by (metis append_take_drop_id map_append)
  with assms show ?thesis
    by (simp add: successes_append sorted_wrt_append)
qed

lemma slice_from_drop: "\<exists>n. slice_from a xs = drop n xs"
  by (auto simp: slice_from_def)

lemma df_tail_drop: "\<exists>n. df_tail a xs = drop n xs"
proof (cases "a = 0")
  case True
  then have "df_tail a xs = drop (length xs) xs" by (simp add: df_tail_def)
  then show ?thesis ..
next
  case False
  then show ?thesis using slice_from_drop [of "- a" xs] by (simp add: df_tail_def)
qed

lemma row_candle_time: "row_candle r = Inr c \<Longrightarrow> r_time r = Inr (time c)"
  by (auto simp: row_candle_def bind_exn_def Candle_cases split: sum.splits if_splits)

lemma binance_candle_time:
  "binance_candle r = Inr c \<Longrightarrow> \<exists>ms. r_time r = Inr ms \<and> time c = ms div 1000"
  by (auto simp: binance_candle_def bind_exn_def Candle_cases split: sum.splits if_splits)

lemma fh_candle_time:
  "fh_candle d vs i = Inr c \<Longrightarrow> i < length (fh_t d) \<and> fh_t d ! i = Inr (time c)"
  by (auto simp: fh_candle_def column_at_def bind_exn_def Candle_cases
      split: sum.splits if_splits)

lemma upstream_ordered_binance:
  assumes "upstream_ordered w" and "binance_get w a b c = Inr resp" and "klines resp = Inr rows"
  shows "sorted_wrt (<) (map (\<lambda>ms. ms div 1000) (successes (map r_time rows)))"
proof -
  from assms(1) have "\<forall>ticker iv lim resp rows.
         binance_get w ticker iv lim = Inr resp \<and> klines resp = Inr rows \<longrightarrow>
         sorted_wrt (<) (map (\<lambda>ms. ms div 1000) (successes (map r_time rows)))"
    by (simp add: upstream_ordered_def)
  from this [rule_format, OF conjI [OF assms(2) assms(3)]] show ?thesis .
qed

lemma upstream_ordered_yf:
  assumes "upstream_ordered w" and "yf_history w a b c = Inr rows"
  shows "sorted_wrt (<) (successes (map r_time rows))"
proof -
  from assms(1) have "\<forall>ticker iv lim rows.
         yf_history w ticker iv lim = Inr rows \<longrightarrow>
         sorted_wrt (<) (successes (map r_time rows))"
    by (simp add: upstream_ordered_def)
  from this [rule_format, OF assms(2)] show ?thesis .
qed

lemma upstream_ordered_tiingo:
  assumes "upstream_ordered w" and "tiingo_get w a b c k = Inr resp"
    and "json resp = Inr (JList rows)"
  shows "sorted_wrt (<) (successes (map r_time rows))"
proof -
  from assms(1) have "\<forall>ticker iv lim k resp rows.
         tiingo_get w ticker iv lim k = Inr resp \<and> json resp = Inr (JList rows) \<longrightarrow>
         sorted_wrt (<) (successes (map r_time rows))"
    by (simp add: upstream_ordered_def)
  from this [rule_format, OF conjI [OF assms(2) assms(3)]] show ?thesis .
qed

lemma upstream_ordered_finnhub_stock:
  assumes "upstream_ordered w" and "finnhub_stock_candles w a b c c' k = Inr (Some d)"
  shows "sorted_wrt (<) (successes (fh_t d))"
proof -
  from assms(1) have "\<forall>ticker iv from_ts to_ts k d.
         finnhub_stock_candles w ticker iv from_ts to_ts k = Inr (Some d) \<longrightarrow>
         sorted_wrt (<) (successes (fh_t d))"
    by (simp add: upstream_ordered_def)
  from this [rule_format, OF assms(2)] show ?thesis .
qed

lemma upstream_ordered_finnhub_forex:
  assumes "upstream_ordered w" and "finnhub_forex_candles w a b c c' k = Inr (Some d)"
  shows "sorted_wrt (<) (successes (fh_t d))"
proof -
  from assms(1) have "\<forall>ticker iv from_ts to_ts k d.
         finnhub_forex_candles w ticker iv from_ts to_ts k = Inr (Some d) \<longrightarrow>
         sorted_wrt (<) (successes (fh_t d))"
    by (simp add: upstream_ordered_def)
  from this [rule_format, OF assms(2)] show ?thesis .
qed

lemma ok_or_None_Some: "ok_or_None r = Some d \<Longrightarrow> r = Inr (Some d)"
  by (auto simp: ok_or_None_def split: sum.splits option.splits if_splits)

text \<open>What Binance returns is the candles of the answer's rows, in the rows' order.\<close>

lemma binance_keeps_row_order:
  assumes "binance_fetch w symbol interval limit = Inr (Some cs)"
  shows "\<exists>resp data.
           binance_get w (normalise symbol) interval (min limit 1000) = Inr resp
           \<and> klines resp = Inr data \<and> cs = successes (map binance_candle data)"
proof -
  from assms obtain resp data where
    g: "binance_get w (normalise symbol) interval (min limit 1000) = Inr resp"
    and k: "klines resp = Inr data"
    and l: "rows_loop [] [] (map binance_candle data) = Inr cs"
    by (auto simp: binance_fetch_def Let_def map_sum_def split: sum.splits if_splits)
  from l have "cs = successes (map binance_candle data)"
    by (auto dest: rows_loop_Inr)
  with g k show ?thesis by blast
qed

lemma binance_ordered:
  assumes "upstream_ordered w" and "binance_fetch w symbol interval limit = Inr (Some cs)"
  shows "strictly_oldest_first cs"
proof -
  from assms(2) obtain resp data where
    g: "binance_get w (normalise symbol) interval (min limit 1000) = Inr resp"
    and k: "klines resp = Inr data"
    and cs: "cs = successes (map binance_candle data)"
    using binance_keeps_row_order by blast
  from assms(1) g k
  have "sorted_wrt (<) (map (\<lambda>ms. ms div 1000) (successes (map r_time data)))"
    by (rule upstream_ordered_binance)
  then have "sorted_wrt (<) (map time (successes (map binance_candle data)))"
    using successes_subordered [of data binance_candle r_time time "\<lambda>ms. ms div 1000" "(<)"]
      binance_candle_time by blast
  with cs show ?thesis by (simp add: strictly_oldest_first_def)
qed

lemma rows_ordered:
  assumes "sorted_wrt (<) (successes (map r_time rows))"
    and "rows_loop caught [] (map row_candle (drop n rows)) = Inr cs"
  shows "strictly_oldest_first cs"
proof -
  from assms(2) have cs: "cs = successes (map row_candle (drop n rows))"
    by (auto dest: rows_loop_Inr)
  from assms(1) have "sorted_wrt (<) (map (\<lambda>t. t) (successes (map r_time (drop n rows))))"
    using successes_drop_sorted [of "(<)" "\<lambda>t. t" r_time rows n] by simp
  then have "sorted_wrt (<) (map time (successes (map row_candle (drop n rows))))"
    using successes_subordered [of "drop n rows" row_candle r_time time "\<lambda>t. t" "(<)"]
      row_candle_time by blast
  with cs show ?thesis by (simp add: strictly_oldest_first_def)
qed

lemma yfinance_ordered:
  assumes "upstream_ordered w" and "yfinance_fetch w symbol interval limit = Inr (Some cs)"
  shows "strictly_oldest_first cs"
proof -
  from assms(2) obtain yi start df where
    h: "yf_history w (to_yf_symbol symbol) yi start = Inr df"
    and l: "rows_loop [ValueError, KeyError] [] (map row_candle (df_tail limit df)) = Inr cs"
    by (auto simp: yfinance_fetch_def yf_download_def map_sum_def or_None_def Let_def
        split: option.splits sum.splits if_splits)
  from assms(1) h have s: "sorted_wrt (<) (successes (map r_time df))"
    by (rule upstream_ordered_yf)
  obtain n where "df_tail limit df = drop n df"
    using df_tail_drop [of limit df] by blast
  with l have "rows_loop [ValueError, KeyError] [] (map row_candle (drop n df)) = Inr cs"
    by simp
  with s show ?thesis by (rule rows_ordered)
qed

lemma tiingo_download_Some:
  "tiingo_download w ticker resample start api_key = Some rows \<Longrightarrow>
   \<exists>resp. tiingo_get w ticker resample start api_key = Inr resp \<and> json resp = Inr (JList rows)"
  by (auto simp: tiingo_download_def split: sum.splits if_splits json_body.splits)

lemma tiingo_ordered:
  assumes "upstream_ordered w" and "tiingo_fetch w symbol interval limit = Inr (Some cs)"
  shows "strictly_oldest_first cs"
proof -
  from assms(2) obtain rs start key rows where
    d: "tiingo_download w (upper symbol) rs start key = Some rows"
    and l: "rows_loop [KeyError, ValueError] [] (map row_candle (slice_from (- limit) rows)) = Inr cs"
    by (auto simp: tiingo_fetch_def map_sum_def or_None_def
        split: option.splits sum.splits if_splits)
  from d obtain resp where "tiingo_get w (upper symbol) rs start key = Inr resp"
    and "json resp = Inr (JList rows)"
    using tiingo_download_Some by blast
  with assms(1) have s: "sorted_wrt (<) (successes (map r_time rows))"
    by (rule upstream_ordered_tiingo)
  obtain n where "slice_from (- limit) rows = drop n rows"
    using slice_from_drop [of "- limit" rows] by blast
  with l have "rows_loop [KeyError, ValueError] [] (map row_candle (drop n rows)) = Inr cs"
    by simp
  with s show ?thesis by (rule rows_ordered)
qed

lemma parse_ordered:
  assumes "sorted_wrt (<) (successes (fh_t d))" and "parse (Some d) limit = Inr (Some cs)"
  shows "strictly_oldest_first cs"
proof -
  define vs where
    "vs = (case fh_v d of None \<Rightarrow> replicate (length (fh_t d)) (Inr (Fin 0)) | Some v \<Rightarrow> v)"
  define outs where "outs = map (fh_candle d vs) [0..<length (fh_t d)]"
  have p: "parse (Some d) limit =
      map_sum id (\<lambda>candles. or_None (slice_from (- limit) candles))
        (rows_loop [IndexError, KeyError, ValueError] [] outs)"
    by (simp add: parse_def Let_def vs_def outs_def)
  from assms(2) obtain candles where
    l: "rows_loop [IndexError, KeyError, ValueError] [] outs = Inr candles"
    and r: "or_None (slice_from (- limit) candles) = Some cs"
    unfolding p
    by (cases "rows_loop [IndexError, KeyError, ValueError] [] outs") auto
  from l have c: "candles = successes outs"
    by (auto dest: rows_loop_Inr)
  have "map (\<lambda>i. fh_t d ! i) [0..<length (fh_t d)] = fh_t d"
    by (rule map_nth)
  with assms(1)
  have "sorted_wrt (<) (map (\<lambda>t. t) (successes (map (\<lambda>i. fh_t d ! i) [0..<length (fh_t d)])))"
    by simp
  then have "sorted_wrt (<) (map time (successes (map (fh_candle d vs) [0..<length (fh_t d)])))"
    using successes_subordered [of "[0..<length (fh_t d)]" "fh_candle d vs" "\<lambda>i. fh_t d ! i"
        time "\<lambda>t. t" "(<)"] fh_candle_time by blast
  with c have s: "sorted_wrt (<) (map time candles)" by (simp add: outs_def)
  from r have "cs = slice_from (- limit) candles"
    by (simp add: or_None_def split: if_splits)
  then obtain n where "cs = drop n candles"
    using slice_from_drop [of "- limit" candles] by auto
  with s show ?thesis
    by (simp add: strictly_oldest_first_def drop_map [symmetric] sorted_wrt_drop_list)
qed

lemma parse_None: "parse None limit = Inr None"
  by (simp add: parse_def)

lemma finnhub_fetch_parse:
  assumes "finnhub_fetch w symbol interval limit = Inr (Some cs)"
  shows "\<exists>rs from_ts to_ts key.
           parse (if FOREX_RE (upper symbol)
                  then fetch_forex w (upper symbol) rs from_ts to_ts key
                  else fetch_stock w (upper symbol) rs from_ts to_ts key) limit = Inr (Some cs)"
proof (cases "map_of RESOLUTION_MAP interval")
  case None
  with assms show ?thesis by (simp add: finnhub_fetch_def)
next
  case (Some rs)
  show ?thesis
  proof (cases "getenv w ''FINNHUB_API_KEY''")
    case None
    with Some assms show ?thesis by (simp add: finnhub_fetch_def)
  next
    case key: (Some key)
    show ?thesis
    proof (cases "from_to_ts w interval limit")
      case (Inl e)
      with Some key assms show ?thesis
        by (simp add: finnhub_fetch_def split: if_splits)
    next
      case (Inr ft)
      obtain from_ts to_ts where "ft = (from_ts, to_ts)" by (cases ft)
      with Inr Some key assms
      have "parse (if FOREX_RE (upper symbol)
                   then fetch_forex w (upper symbol) rs from_ts to_ts key
                   else fetch_stock w (upper symbol) rs from_ts to_ts key) limit = Inr (Some cs)"
        by (simp add: finnhub_fetch_def Let_def split: if_splits)
      then show ?thesis by blast
    qed
  qed
qed

lemma finnhub_ordered:
  assumes "upstream_ordered w" and "finnhub_fetch w symbol interval limit = Inr (Some cs)"
  shows "strictly_oldest_first cs"
proof -
  define up where "up = upper symbol"
  from assms(2) obtain rs from_ts to_ts key where
    p: "parse (if FOREX_RE up then fetch_forex w up rs from_ts to_ts key
               else fetch_stock w up rs from_ts to_ts key) limit = Inr (Some cs)"
    unfolding up_def using finnhub_fetch_parse by blast
  show ?thesis
  proof (cases "FOREX_RE up")
    case True
    with p have q: "parse (fetch_forex w up rs from_ts to_ts key) limit = Inr (Some cs)"
      by simp
    then obtain d where d: "fetch_forex w up rs from_ts to_ts key = Some d"
      by (cases "fetch_forex w up rs from_ts to_ts key") (auto simp: parse_None)
    then have "finnhub_forex_candles w (to_forex_symbol up) rs from_ts to_ts key = Inr (Some d)"
      by (simp add: fetch_forex_def ok_or_None_Some)
    with assms(1) have "sorted_wrt (<) (successes (fh_t d))"
      by (rule upstream_ordered_finnhub_forex)
    with q d show ?thesis by (simp add: parse_ordered)
  next
    case False
    with p have q: "parse (fetch_stock w up rs from_ts to_ts key) limit = Inr (Some cs)"
      by simp
    then obtain d where d: "fetch_stock w up rs from_ts to_ts key = Some d"
      by (cases "fetch_stock w up rs from_ts to_ts key") (auto simp: parse_None)
    then have "finnhub_stock_candles w up rs from_ts to_ts key = Inr (Some d)"
      by (simp add: fetch_stock_def ok_or_None_Some)
    with assms(1) have "sorted_wrt (<) (successes (fh_t d))"
      by (rule upstream_ordered_finnhub_stock)
    with q d show ?thesis by (simp add: parse_ordered)
  qed
qed

lemma provider_ordered:
  assumes "upstream_ordered w" and "provider_fetch w p symbol interval limit = Inr (Some cs)"
  shows "strictly_oldest_first cs"
proof (cases p)
  case Binance
  with assms show ?thesis by (simp add: binance_ordered)
next
  case YFinance
  with assms show ?thesis by (simp add: yfinance_ordered)
next
  case Tiingo
  with assms show ?thesis by (simp add: tiingo_ordered)
next
  case Finnhub
  with assms show ?thesis by (simp add: finnhub_ordered)
qed

text \<open>
  No provider and no step of \<open>fetch\<close> sorts: the candles come back in the order of the
  upstream's rows. When every upstream answers with rows whose time stamps, in seconds,
  strictly increase, every sequence that \<open>fetch\<close> returns is strictly ordered
  oldest-first by \<open>time\<close>.
\<close>

lemma ordered_upstream_ordered_result:
  "upstream_ordered w \<Longrightarrow> returns_ordered (fst (fetch w symbol interval limit))"
proof -
  assume u: "upstream_ordered w"
  show ?thesis
  proof (cases "fst (fetch w symbol interval limit)")
    case (Inl e)
    then show ?thesis by (simp add: returns_ordered_def)
  next
    case (Inr r)
    show ?thesis
    proof (cases r)
      case None
      with Inr show ?thesis by (simp add: returns_ordered_def)
    next
      case (Some cs)
      with Inr obtain p where "provider_fetch w p symbol interval limit = Inr (Some cs)"
        using fetch_loop_source [of w symbol interval limit "[]" "pick symbol" cs]
        by (auto simp: fetch_def)
      with u have "strictly_oldest_first cs" by (rule provider_ordered)
      with Inr Some show ?thesis by (simp add: returns_ordered_def)
    qed
  qed
qed

lemma tiingo_only_ordered:
  "upstream_ordered (tiingo_only [row 100 1 2 1 1 7, row 200 1 2 1 1 7, row 300 1 2 1 1 7])"
  by (auto simp: upstream_ordered_def tiingo_only_def offline_def row_def)

lemma ordered_upstream_example:
  "fetch (tiingo_only [row 100 1 2 1 1 7, row 200 1 2 1 1 7, row 300 1 2 1 1 7])
     ''AAPL'' ''1d'' 2 =
   (Inr (Some [bar 200 1 2 1 1 7, bar 300 1 2 1 1 7]), [YFinance, Tiingo]) \<and>
   returns_ordered
     (fst (fetch (tiingo_only [row 100 1 2 1 1 7, row 200 1 2 1 1 7, row 300 1 2 1 1 7])
        ''AAPL'' ''1d'' 2))"
proof -
  have "fetch (tiingo_only [row 100 1 2 1 1 7, row 200 1 2 1 1 7, row 300 1 2 1 1 7])
     ''AAPL'' ''1d'' 2 =
   (Inr (Some [bar 200 1 2 1 1 7, bar 300 1 2 1 1 7]), [YFinance, Tiingo])"
    by (simp add: fetch_def pick_AAPL supports_AAPL fetch_defs world_defs
        del: supports.simps)
  then show ?thesis
    using ordered_upstream_ordered_result [OF tiingo_only_ordered, of "''AAPL''" "''1d''" 2]
    by simp
qed

text \<open>
  C7. Binance answers with two valid rows, the newer one first (open times 2000 ms and
  1000 ms). \<open>fetch\<close> returns the two candles in that order, with times 2 and 1: the
  sequence it returns is not ordered oldest-first.
\<close>

theorem fetch_keeps_unsorted_upstream_order:
  "fetch (binance_only [row 2000 1 2 1 1 7, row 1000 1 2 1 1 7]) ''BTCUSDT'' ''1d'' 5 =
     (Inr (Some [bar 2 1 2 1 1 7, bar 1 1 2 1 1 7]), [Binance])
   \<and> \<not> strictly_oldest_first [bar 2 1 2 1 1 7, bar 1 1 2 1 1 7]
   \<and> \<not> returns_ordered
         (fst (fetch (binance_only [row 2000 1 2 1 1 7, row 1000 1 2 1 1 7])
            ''BTCUSDT'' ''1d'' 5))"
proof -
  have "fetch (binance_only [row 2000 1 2 1 1 7, row 1000 1 2 1 1 7]) ''BTCUSDT'' ''1d'' 5 =
    (Inr (Some [bar 2 1 2 1 1 7, bar 1 1 2 1 1 7]), [Binance])"
    by (simp add: fetch_def pick_BTCUSDT supports_BTCUSDT fetch_defs world_defs Let_def
        del: supports.simps)
  then show ?thesis
    by (simp add: returns_ordered_def strictly_oldest_first_def bar_def)
qed

end
